theory Spec2Isabelle
  imports Complex_Main "HOL-Library.Multiset"
begin

section \<open>Solar energy estimation: the functions of app.py\<close>

text \<open>
  Python floats are modelled as \<^typ>\<open>real\<close>: arithmetic is exact, with no rounding
  error of the binary format, and there is no value for NaN or infinity (where the sum of
  the cloud cover readings leaves the finite range, that is recorded, and no more). \<open>math.tan\<close>, \<open>math.acos\<close>,
  \<open>math.sin\<close> and \<open>math.pi\<close> are the functions \<^const>\<open>tan\<close>, \<^const>\<open>arccos\<close>,
  \<^const>\<open>sin\<close> and the constant \<^const>\<open>pi\<close> of the library. Every concrete input used below
  was chosen so that binary floating point gives the same answer as exact arithmetic.
  At an odd multiple of 90 degrees \<^const>\<open>tan\<close> is 0 in the library, where \<open>math.tan\<close>
  returns a large finite number; the properties of \<open>daylight_hours\<close> below are stated
  in terms of the product of the two tangents and hold for either reading.
\<close>

subsection \<open>Rounding\<close>

text \<open>
  \<open>round(x, n)\<close> of Python rounds to the nearest multiple of \<open>10 ^ -n\<close>, and a value
  exactly half way between two of them goes to the one whose last digit is even.
\<close>

definition round_half_even :: "real \<Rightarrow> int" where
  "round_half_even x =
     (let f = \<lfloor>x\<rfloor>; d = x - of_int f
      in if d < 1 / 2 then f
         else if 1 / 2 < d then f + 1
         else if even f then f else f + 1)"

definition py_round :: "real \<Rightarrow> nat \<Rightarrow> real" where
  "py_round x n = of_int (round_half_even (x * 10 ^ n)) / 10 ^ n"

subsection \<open>Helper functions\<close>

definition SOLAR_CONSTANT :: real where
  "SOLAR_CONSTANT = 1367"

definition radians :: "real \<Rightarrow> real" where
  "radians d = d * pi / 180"

definition declination_angle :: "real \<Rightarrow> real" where
  "declination_angle n = 23.45 * sin (radians (360 * (284 + n) / 365))"

text \<open>
  \<open>math.acos\<close> raises \<open>ValueError\<close> exactly when its argument lies outside \<open>[-1, 1]\<close>;
  the handler of \<open>daylight_hours\<close> turns that into the result 0.
\<close>

definition daylight_hours :: "real \<Rightarrow> real \<Rightarrow> real" where
  "daylight_hours latitude decl =
     (let lat_rad = radians latitude;
          decl_rad = radians decl;
          x = - tan lat_rad * tan decl_rad
      in if - 1 \<le> x \<and> x \<le> 1
         then (let ha = arccos x in (2 * ha * 180 / pi) / 15)
         else 0)"

definition solar_intensity :: "real \<Rightarrow> real" where
  "solar_intensity cloud_cover = py_round (SOLAR_CONSTANT * (1 - cloud_cover / 100)) 2"

definition calculate_energy :: "real \<Rightarrow> real \<Rightarrow> real" where
  "calculate_energy intensity daylight =
     py_round ((intensity * daylight * 3600) / 1000000) 2"

subsection \<open>Python values and exceptions\<close>

text \<open>
  A JSON document as Python's decoder gives it. A number is a \<open>JNum\<close> where Python
  reads an \<open>int\<close> (of any size), a \<open>JFloat\<close> where it reads a finite \<open>float\<close>, and
  \<open>JNonFinite\<close> where it reads \<open>inf\<close>, \<open>-inf\<close> or \<open>nan\<close> (from \<open>1e999\<close>,
  \<open>Infinity\<close>, \<open>NaN\<close>). An object is the association list of its members, looked up
  with \<^const>\<open>map_of\<close>.
\<close>

datatype json =
    JNull
  | JBool bool
  | JNum int
  | JFloat real
  | JNonFinite
  | JStr string
  | JArr "json list"
  | JObj "(string \<times> json) list"

datatype py_exception =
    ConnectionError
  | Timeout
  | HTTPError
  | JSONDecodeError
  | AttributeError
  | TypeError
  | KeyError
  | ValueError
  | ZeroDivisionError
  | OverflowError

text \<open>
  What the three calls \<open>session.get(url, timeout=8)\<close>, \<open>res.raise_for_status()\<close> and
  \<open>res.json()\<close> give: one of them raises (a transport failure, a timeout, an error status,
  a body that is not JSON), or the decoded payload is there.
\<close>

datatype http_outcome =
    Raised py_exception
  | Payload json

fun fetch_json :: "http_outcome \<Rightarrow> py_exception + json" where
  "fetch_json (Raised e) = Inl e"
| "fetch_json (Payload data) = Inr data"

text \<open>Sequencing of statements that may raise: the first exception ends the block.\<close>

definition and_then :: "'e + 'a \<Rightarrow> ('a \<Rightarrow> 'e + 'b) \<Rightarrow> 'e + 'b" where
  "and_then r f = (case r of Inl e \<Rightarrow> Inl e | Inr v \<Rightarrow> f v)"

text \<open>The truth value Python gives a JSON value in \<open>if v\<close> and \<open>v or w\<close>.\<close>

fun truthy :: "json \<Rightarrow> bool" where
  "truthy JNull = False"
| "truthy (JBool b) = b"
| "truthy (JNum i) = (i \<noteq> 0)"
| "truthy (JFloat x) = (x \<noteq> 0)"
| "truthy JNonFinite = True"
| "truthy (JStr s) = (s \<noteq> [])"
| "truthy (JArr xs) = (xs \<noteq> [])"
| "truthy (JObj kv) = (kv \<noteq> [])"

text \<open>\<open>d.get(k, dflt)\<close>: only a dict has the method.\<close>

fun dict_get :: "json \<Rightarrow> string \<Rightarrow> json \<Rightarrow> py_exception + json" where
  "dict_get (JObj kv) k dflt = Inr (case map_of kv k of None \<Rightarrow> dflt | Some v \<Rightarrow> v)"
| "dict_get JNull k dflt = Inl AttributeError"
| "dict_get (JBool b) k dflt = Inl AttributeError"
| "dict_get (JNum i) k dflt = Inl AttributeError"
| "dict_get (JFloat x) k dflt = Inl AttributeError"
| "dict_get JNonFinite k dflt = Inl AttributeError"
| "dict_get (JStr s) k dflt = Inl AttributeError"
| "dict_get (JArr xs) k dflt = Inl AttributeError"

text \<open>
  The numbers of Python that a sum of JSON numbers runs through: an \<open>int\<close>, a finite
  \<open>float\<close>, or a \<open>float\<close> that is \<open>inf\<close>, \<open>-inf\<close> or \<open>nan\<close>.
\<close>

datatype py_number =
    PyInt int
  | PyFloat real
  | PyNonFinite

text \<open>
  The least magnitude that rounds to no finite double: half way between the largest
  double and \<open>2 ^ 1024\<close>. Converting an \<open>int\<close> of at least this magnitude to a \<open>float\<close>
  raises \<open>OverflowError\<close>; a sum of two floats of at least this magnitude is \<open>inf\<close> or
  \<open>-inf\<close>.
\<close>

definition FLOAT_OVERFLOW :: real where
  "FLOAT_OVERFLOW = 2 ^ 1024 - 2 ^ 970"

definition float_of_int :: "int \<Rightarrow> py_exception + real" where
  "float_of_int i =
     (if FLOAT_OVERFLOW \<le> \<bar>real_of_int i\<bar> then Inl OverflowError else Inr (real_of_int i))"

definition float_add :: "real \<Rightarrow> real \<Rightarrow> py_number" where
  "float_add x y = (if FLOAT_OVERFLOW \<le> \<bar>x + y\<bar> then PyNonFinite else PyFloat (x + y))"

text \<open>
  \<open>acc + item\<close>, as \<open>sum\<close> does it: two ints add exactly; an int next to a float is
  converted first; a \<open>bool\<close> counts as the int 1 or 0; any other item raises.
\<close>

fun py_add :: "py_number \<Rightarrow> json \<Rightarrow> py_exception + py_number" where
  "py_add (PyInt a) (JNum i) = Inr (PyInt (a + i))"
| "py_add (PyInt a) (JBool b) = Inr (PyInt (a + (if b then 1 else 0)))"
| "py_add (PyInt a) (JFloat x) = and_then (float_of_int a) (\<lambda>fa. Inr (float_add fa x))"
| "py_add (PyInt a) JNonFinite = and_then (float_of_int a) (\<lambda>fa. Inr PyNonFinite)"
| "py_add (PyFloat f) (JNum i) = and_then (float_of_int i) (\<lambda>fi. Inr (float_add f fi))"
| "py_add (PyFloat f) (JBool b) = Inr (float_add f (if b then 1 else 0))"
| "py_add (PyFloat f) (JFloat x) = Inr (float_add f x)"
| "py_add (PyFloat f) JNonFinite = Inr PyNonFinite"
| "py_add PyNonFinite (JNum i) = and_then (float_of_int i) (\<lambda>fi. Inr PyNonFinite)"
| "py_add PyNonFinite (JBool b) = Inr PyNonFinite"
| "py_add PyNonFinite (JFloat x) = Inr PyNonFinite"
| "py_add PyNonFinite JNonFinite = Inr PyNonFinite"
| "py_add acc JNull = Inl TypeError"
| "py_add acc (JStr s) = Inl TypeError"
| "py_add acc (JArr xs) = Inl TypeError"
| "py_add acc (JObj kv) = Inl TypeError"

text \<open>
  \<open>sum(v)\<close> starts from the int 0 and adds the items in order. The items of a dict are
  its keys and those of a string its characters, so a non-empty one raises at the first
  item; a value that is no container raises at once.
\<close>

fun sum_items :: "json list \<Rightarrow> py_number \<Rightarrow> py_exception + py_number" where
  "sum_items [] acc = Inr acc"
| "sum_items (v # vs) acc = and_then (py_add acc v) (sum_items vs)"

fun py_sum :: "json \<Rightarrow> py_exception + py_number" where
  "py_sum (JArr xs) = sum_items xs (PyInt 0)"
| "py_sum (JStr s) = (if s = [] then Inr (PyInt 0) else Inl TypeError)"
| "py_sum (JObj kv) = (if kv = [] then Inr (PyInt 0) else Inl TypeError)"
| "py_sum JNull = Inl TypeError"
| "py_sum (JBool b) = Inl TypeError"
| "py_sum (JNum i) = Inl TypeError"
| "py_sum (JFloat x) = Inl TypeError"
| "py_sum JNonFinite = Inl TypeError"

fun py_len :: "json \<Rightarrow> py_exception + nat" where
  "py_len (JArr xs) = Inr (length xs)"
| "py_len (JStr s) = Inr (length s)"
| "py_len (JObj kv) = Inr (length kv)"
| "py_len JNull = Inl TypeError"
| "py_len (JBool b) = Inl TypeError"
| "py_len (JNum i) = Inl TypeError"
| "py_len (JFloat x) = Inl TypeError"
| "py_len JNonFinite = Inl TypeError"

text \<open>
  \<open>s / n\<close> for a length \<open>n\<close>: the quotient of two ints is the float nearest to it, and
  \<open>OverflowError\<close> when that is no finite float.
\<close>

fun py_truediv :: "py_number \<Rightarrow> nat \<Rightarrow> py_exception + py_number" where
  "py_truediv (PyInt s) n =
     (if n = 0 then Inl ZeroDivisionError
      else if FLOAT_OVERFLOW \<le> \<bar>real_of_int s / real n\<bar> then Inl OverflowError
      else Inr (PyFloat (real_of_int s / real n)))"
| "py_truediv (PyFloat x) n =
     (if n = 0 then Inl ZeroDivisionError else Inr (PyFloat (x / real n)))"
| "py_truediv PyNonFinite n =
     (if n = 0 then Inl ZeroDivisionError else Inr PyNonFinite)"

text \<open>
  The real number a finite Python number stands for. The model of floats as reals has
  no value for \<open>inf\<close> and \<open>nan\<close>: for \<open>PyNonFinite\<close> the function has no equation, and
  nothing is proved about a result that passes through it.
\<close>

fun float_value :: "py_number \<Rightarrow> real" where
  "float_value (PyInt i) = real_of_int i"
| "float_value (PyFloat x) = x"

subsection \<open>Cached API calls\<close>

text \<open>
  The network is a parameter: \<open>api lat lon\<close> is the outcome of the request whose URL
  carries \<open>lat\<close> and \<open>lon\<close>. \<open>lru_cache\<close> only saves a repeated request for the same
  arguments and is left out. The \<open>try\<close> block is a function into a sum, and the
  \<open>except Exception\<close> handler is the case on it.
\<close>

definition weather_try :: "http_outcome \<Rightarrow> py_exception + json \<times> real" where
  "weather_try outcome =
     and_then (fetch_json outcome) (\<lambda>data.
     and_then (dict_get data ''current_weather'' (JObj [])) (\<lambda>cw.
     and_then (dict_get cw ''temperature'' (JNum 25)) (\<lambda>temp.
     and_then (dict_get data ''hourly'' (JObj [])) (\<lambda>hourly.
     and_then (dict_get hourly ''cloudcover'' (JArr [JNum 0])) (\<lambda>clouds_list.
     and_then (if truthy clouds_list
               then and_then (py_sum clouds_list) (\<lambda>s.
                    and_then (py_len clouds_list) (\<lambda>n. py_truediv s n))
               else Inr (PyInt 0)) (\<lambda>clouds.
     Inr (temp, float_value clouds)))))))"

definition get_weather_data_cached ::
    "(real \<Rightarrow> real \<Rightarrow> http_outcome) \<Rightarrow> real \<Rightarrow> real \<Rightarrow> json \<times> real" where
  "get_weather_data_cached api lat_rounded lon_rounded =
     (case weather_try (api lat_rounded lon_rounded) of
        Inr sample \<Rightarrow> sample
      | Inl e \<Rightarrow> (JNum 25, 0))"

definition get_weather_data ::
    "(real \<Rightarrow> real \<Rightarrow> http_outcome) \<Rightarrow> real \<Rightarrow> real \<Rightarrow> json \<times> real" where
  "get_weather_data api lat lon = get_weather_data_cached api (py_round lat 4) (py_round lon 4)"

text \<open>
  \<open>a or b\<close> is \<open>a\<close> when \<open>a\<close> is true and \<open>b\<close> otherwise, and \<open>b\<close> is evaluated only
  then.
\<close>

definition region_name_try :: "http_outcome \<Rightarrow> py_exception + json" where
  "region_name_try outcome =
     and_then (fetch_json outcome) (\<lambda>data.
     and_then (dict_get data ''address'' (JObj [])) (\<lambda>addr.
     and_then (dict_get addr ''city'' JNull) (\<lambda>city.
     if truthy city then Inr city else
     and_then (dict_get addr ''town'' JNull) (\<lambda>town.
     if truthy town then Inr town else
     and_then (dict_get addr ''village'' JNull) (\<lambda>village.
     if truthy village then Inr village else
     and_then (dict_get addr ''state'' JNull) (\<lambda>state.
     if truthy state then Inr state else Inr (JStr ''Unknown'')))))))"

definition get_region_name_from_coords_cached ::
    "(real \<Rightarrow> real \<Rightarrow> http_outcome) \<Rightarrow> real \<Rightarrow> real \<Rightarrow> json" where
  "get_region_name_from_coords_cached api lat_rounded lon_rounded =
     (case region_name_try (api lat_rounded lon_rounded) of
        Inr name \<Rightarrow> name
      | Inl e \<Rightarrow> JStr ''Unknown'')"

definition get_region_name_from_coords ::
    "(real \<Rightarrow> real \<Rightarrow> http_outcome) \<Rightarrow> real \<Rightarrow> real \<Rightarrow> json" where
  "get_region_name_from_coords api lat lon =
     get_region_name_from_coords_cached api (py_round lat 4) (py_round lon 4)"

text \<open>An endpoint that answers every request with the same outcome.\<close>

definition constant_api :: "http_outcome \<Rightarrow> real \<Rightarrow> real \<Rightarrow> http_outcome" where
  "constant_api outcome lat lon = outcome"

subsection \<open>The region catalog\<close>

text \<open>
  A CSV file is the list of records \<open>csv.reader\<close> yields for it, each a list of strings.
  \<open>csv.DictReader\<close> takes the first record as the field names and turns every later
  record that is not empty into a dict: the field names zipped with the record, and each
  field name the record is too short for mapped to \<open>None\<close>, here \<open>Missing\<close>. A key
  that is not a field name raises \<open>KeyError\<close> on lookup.
\<close>

datatype cell =
    Missing
  | Cell string

type_synonym csv_row = "string \<Rightarrow> cell option"

definition make_row :: "string list \<Rightarrow> string list \<Rightarrow> csv_row" where
  "make_row fieldnames rec =
     (let d = fold (\<lambda>(k, v) d. d(k \<mapsto> Cell v)) (zip fieldnames rec) Map.empty
      in if length rec < length fieldnames
         then fold (\<lambda>k d. d(k \<mapsto> Missing)) (drop (length rec) fieldnames) d
         else d)"

fun DictReader :: "string list list \<Rightarrow> csv_row list" where
  "DictReader [] = []"
| "DictReader (fieldnames # recs) = map (make_row fieldnames) (filter (\<lambda>rec. rec \<noteq> []) recs)"

definition row_get :: "csv_row \<Rightarrow> string \<Rightarrow> py_exception + cell" where
  "row_get row k = (case row k of None \<Rightarrow> Inl KeyError | Some c \<Rightarrow> Inr c)"

text \<open>
  The builtin \<open>float\<close> is a parameter \<open>py_float\<close>: the number a string denotes, or
  \<open>None\<close> where \<open>float\<close> raises \<open>ValueError\<close>. On \<open>None\<close> it raises \<open>TypeError\<close>.
\<close>

fun float_of_cell :: "(string \<Rightarrow> real option) \<Rightarrow> cell \<Rightarrow> py_exception + real" where
  "float_of_cell py_float Missing = Inl TypeError"
| "float_of_cell py_float (Cell s) =
     (case py_float s of None \<Rightarrow> Inl ValueError | Some x \<Rightarrow> Inr x)"

text \<open>The dict with the keys \<open>region\<close>, \<open>latitude\<close> and \<open>longitude\<close>.\<close>

record region_entry =
  entry_region :: cell
  entry_latitude :: real
  entry_longitude :: real

definition row_try :: "(string \<Rightarrow> real option) \<Rightarrow> csv_row \<Rightarrow> py_exception + region_entry" where
  "row_try py_float row =
     and_then (row_get row ''region'') (\<lambda>name.
     and_then (row_get row ''latitude'') (\<lambda>lat_cell.
     and_then (float_of_cell py_float lat_cell) (\<lambda>lat.
     and_then (row_get row ''longitude'') (\<lambda>lon_cell.
     and_then (float_of_cell py_float lon_cell) (\<lambda>lon.
     Inr \<lparr>entry_region = name, entry_latitude = lat, entry_longitude = lon\<rparr>)))))"

fun read_rows ::
    "(string \<Rightarrow> real option) \<Rightarrow> csv_row list \<Rightarrow> region_entry list \<Rightarrow> region_entry list" where
  "read_rows py_float [] regions = regions"
| "read_rows py_float (row # rows) regions =
     (case row_try py_float row of
        Inr entry \<Rightarrow> read_rows py_float rows (regions @ [entry])
      | Inl e \<Rightarrow> read_rows py_float rows regions)"

text \<open>
  The files are a parameter \<open>files\<close>: \<open>None\<close> for a path where \<open>os.path.exists\<close> is
  false.
\<close>

definition read_regions ::
    "(string \<Rightarrow> real option) \<Rightarrow> (string \<Rightarrow> string list list option) \<Rightarrow> string
      \<Rightarrow> region_entry list" where
  "read_regions py_float files file_path =
     (case files file_path of
        None \<Rightarrow> []
      | Some recs \<Rightarrow> read_rows py_float (DictReader recs) [])"

subsection \<open>The ranking\<close>

definition REGION_FILE :: string where
  "REGION_FILE = ''csv/india_regions.csv''"

text \<open>A row of the data frame: the dict with the keys \<open>region\<close> to \<open>energy\<close>.\<close>

record energy_result =
  res_region :: cell
  res_date :: string
  res_time :: string
  res_temp :: json
  res_cloud :: real
  res_intensity :: real
  res_daylight :: real
  res_energy :: real

text \<open>
  What the function reads from outside: the builtin \<open>float\<close>, the files, the weather
  endpoint, the clock (\<open>str(today)\<close>, the formatted time, \<open>tm_yday\<close>) and pandas'
  \<open>df.sort_values(by='energy', ascending=False)\<close>. The call names no \<open>kind\<close>, so
  pandas sorts with its default \<open>quicksort\<close>, which its documentation does not give as
  stable: the order it leaves rows of equal energy in is the parameter's.
\<close>

record env =
  py_float :: "string \<Rightarrow> real option"
  csv_files :: "string \<Rightarrow> string list list option"
  weather_api :: "real \<Rightarrow> real \<Rightarrow> http_outcome"
  today :: string
  now :: string
  day_number :: nat
  sort_values :: "energy_result list \<Rightarrow> energy_result list"

definition region_result :: "env \<Rightarrow> real \<Rightarrow> region_entry \<Rightarrow> energy_result" where
  "region_result e decl r =
     (let lat = entry_latitude r;
          lon = entry_longitude r;
          (temp, clouds) = get_weather_data (weather_api e) lat lon;
          daylight = daylight_hours lat decl;
          intensity = solar_intensity clouds;
          energy = calculate_energy intensity daylight
      in \<lparr>res_region = entry_region r,
          res_date = today e,
          res_time = now e,
          res_temp = temp,
          res_cloud = py_round clouds 2,
          res_intensity = intensity,
          res_daylight = py_round daylight 2,
          res_energy = energy\<rparr>)"

fun collect_results ::
    "env \<Rightarrow> real \<Rightarrow> region_entry list \<Rightarrow> energy_result list \<Rightarrow> energy_result list" where
  "collect_results e decl [] results = results"
| "collect_results e decl (r # regions) results =
     collect_results e decl regions (results @ [region_result e decl r])"

text \<open>
  The state is the content of \<open>TOP_10_REGIONS.csv\<close>: \<open>None\<close> before the file exists,
  the rows written otherwise. The function returns the data frame and the new state.
\<close>

definition process_and_save_top_regions ::
    "env \<Rightarrow> energy_result list option \<Rightarrow> energy_result list \<times> energy_result list option" where
  "process_and_save_top_regions e top_regions_file =
     (let decl = declination_angle (real (day_number e));
          regions = read_regions (py_float e) (csv_files e) REGION_FILE;
          df = collect_results e decl regions []
      in if df \<noteq> []
         then (let df' = take 10 (sort_values e df) in (df', Some df'))
         else (df, top_regions_file))"

subsection \<open>The preference order of the region name, as the specification words it\<close>

text \<open>
  The first of the given fields that the address has with a non-empty value, and the
  name \<open>Unknown\<close> when there is none. This definition follows the specification, not the
  code; the code is compared with it below.
\<close>

fun first_nonempty :: "(string \<times> json) list \<Rightarrow> string list \<Rightarrow> json" where
  "first_nonempty addr [] = JStr ''Unknown''"
| "first_nonempty addr (k # ks) =
     (case map_of addr k of
        Some v \<Rightarrow> if truthy v then v else first_nonempty addr ks
      | None \<Rightarrow> first_nonempty addr ks)"

subsection \<open>Notions used to state the properties\<close>




subsection \<open>Concrete surroundings for the examples\<close>

text \<open>
  \<open>float\<close> on the strings the examples use: \<open>float("0")\<close> is 0.0, \<open>float("50")\<close> is
  50.0, and every other string of the examples is one \<open>float\<close> rejects.
\<close>

definition demo_float :: "string \<Rightarrow> real option" where
  "demo_float s =
     (if s = ''0'' then Some 0 else if s = ''50'' then Some 50 else None)"


definition catalog_header :: "string list" where
  "catalog_header = [''region'', ''latitude'', ''longitude'']"

definition tied_catalog :: "string list list" where
  "tied_catalog = [catalog_header, [''A'', ''0'', ''0''], [''B'', ''0'', ''0'']]"

text \<open>A weather endpoint whose only hourly cloud cover reading is the longitude asked for.\<close>

definition lon_cloud_api :: "real \<Rightarrow> real \<Rightarrow> http_outcome" where
  "lon_cloud_api lat lon =
     Payload (JObj [(''hourly'', JObj [(''cloudcover'', JArr [JFloat lon])])])"

text \<open>
  A sort by descending energy that keeps rows of equal energy in their order: the rows
  reversed, sorted by ascending energy, and reversed again.
\<close>

definition stable_sort_desc :: "energy_result list \<Rightarrow> energy_result list" where
  "stable_sort_desc df = rev (sort_key res_energy (rev df))"

definition demo_env ::
    "string list list option \<Rightarrow> (energy_result list \<Rightarrow> energy_result list) \<Rightarrow> env" where
  "demo_env catalog srt =
     \<lparr>py_float = demo_float,
      csv_files = (\<lambda>p. if p = REGION_FILE then catalog else None),
      weather_api = lon_cloud_api,
      today = ''2026-03-21'',
      now = ''12:00:00'',
      day_number = 80,
      sort_values = srt\<rparr>"

definition old_snapshot :: "energy_result list" where
  "old_snapshot =
     [\<lparr>res_region = Cell ''Old'', res_date = ''2026-03-20'', res_time = ''09:00:00'',
       res_temp = JNum 30, res_cloud = 0, res_intensity = 1367, res_daylight = 12,
       res_energy = 59.05\<rparr>]"

section \<open>Properties of rounding\<close>

lemma round_half_even_of_int: "round_half_even (of_int k) = k"
  by (simp add: round_half_even_def)

lemma round_half_even_mono:
  assumes "x \<le> y"
  shows "round_half_even x \<le> round_half_even y"
proof (cases "\<lfloor>x\<rfloor> = \<lfloor>y\<rfloor>")
  case True
  with assms show ?thesis
    by (auto simp: round_half_even_def Let_def)
next
  case False
  with assms have "\<lfloor>x\<rfloor> + 1 \<le> \<lfloor>y\<rfloor>"
    using floor_mono [of x y] by linarith
  moreover have "round_half_even x \<le> \<lfloor>x\<rfloor> + 1"
    by (simp add: round_half_even_def Let_def)
  moreover have "\<lfloor>y\<rfloor> \<le> round_half_even y"
    by (simp add: round_half_even_def Let_def)
  ultimately show ?thesis by linarith
qed

lemma round_half_even_upper: "of_int (round_half_even x) \<le> x + 1 / 2"
proof -
  have "of_int \<lfloor>x\<rfloor> \<le> x"
    by (rule of_int_floor_le)
  moreover have "x - of_int \<lfloor>x\<rfloor> < 1 / 2 \<or> x < of_int \<lfloor>x\<rfloor> + 1"
    by linarith
  ultimately show ?thesis
    unfolding round_half_even_def Let_def
    by (simp split: if_splits) linarith
qed

lemma py_round_mono: "x \<le> y \<Longrightarrow> py_round x n \<le> py_round y n"
  by (simp add: py_round_def divide_right_mono mult_right_mono round_half_even_mono)

lemma py_round_of_int: "py_round (of_int k / 10 ^ n) n = of_int k / 10 ^ n"
  by (simp add: py_round_def round_half_even_of_int)

lemma py_round2_upper: "py_round x 2 \<le> x + 1 / 200"
proof -
  have "of_int (round_half_even (x * 100)) \<le> x * 100 + 1 / 2"
    by (rule round_half_even_upper)
  then show ?thesis
    by (simp add: py_round_def field_simps)
qed

section \<open>The energy model\<close>

lemma solar_intensity_0: "solar_intensity 0 = 1367"
  using py_round_of_int [of 136700 2]
  by (simp add: solar_intensity_def SOLAR_CONSTANT_def)

lemma solar_intensity_100: "solar_intensity 100 = 0"
  using py_round_of_int [of 0 2]
  by (simp add: solar_intensity_def SOLAR_CONSTANT_def)

lemma solar_intensity_200: "solar_intensity 200 = - 1367"
  using py_round_of_int [of "- 136700" 2]
  by (simp add: solar_intensity_def SOLAR_CONSTANT_def)

lemma solar_intensity_antimono: "c1 \<le> c2 \<Longrightarrow> solar_intensity c2 \<le> solar_intensity c1"
  unfolding solar_intensity_def SOLAR_CONSTANT_def
  by (rule py_round_mono) simp

lemma solar_intensity_negative:
  assumes "100 + 1 / 2734 < c"
  shows "solar_intensity c < 0"
proof -
  have "solar_intensity c \<le> SOLAR_CONSTANT * (1 - c / 100) + 1 / 200"
    unfolding solar_intensity_def by (rule py_round2_upper)
  also have "\<dots> < 0"
    using assms by (simp add: SOLAR_CONSTANT_def field_simps)
  finally show ?thesis .
qed

lemma calculate_energy_negative: "calculate_energy (- 1367) 12 = - 59.05"
  by (simp add: calculate_energy_def py_round_def round_half_even_def Let_def)

text \<open>
  C7, as stated, fails: the intensity is not strictly decreasing on \<open>[0, 100]\<close>. Cloud
  covers 0 and 0.0001 are both in the interval and both give 1367.0, because the value is
  rounded to two decimals.
\<close>

theorem solar_intensity_strict_counterexample:
  "(0::real) < 1 / 10000 \<and> (1::real) / 10000 \<le> 100
     \<and> \<not> solar_intensity (1 / 10000) < solar_intensity 0"
  by (simp add: solar_intensity_def SOLAR_CONSTANT_def py_round_def round_half_even_def Let_def)

text \<open>
  C7, amended: \<open>solar_intensity(0)\<close> is 1367.0, \<open>solar_intensity(100)\<close> is 0.0, and the
  intensity never increases when the cloud cover increases (it is decreasing, not
  strictly).
\<close>

theorem solar_intensity_endpoints_decreasing:
  "solar_intensity 0 = 1367 \<and> solar_intensity 100 = 0
     \<and> (c1 \<le> c2 \<longrightarrow> solar_intensity c2 \<le> solar_intensity c1)"
  by (simp add: solar_intensity_0 solar_intensity_100 solar_intensity_antimono)

theorem solar_intensity_endpoints_decreasing_witness:
  "(0::real) \<le> 100 \<and> solar_intensity 100 \<le> solar_intensity 0
     \<and> solar_intensity 0 = 1367 \<and> solar_intensity 100 = 0"
  using solar_intensity_endpoints_decreasing [of 0 100] by simp

text \<open>
  C10, as stated, fails: not every cloud cover above 100 gives a strictly negative
  intensity. At 100.0001 the unrounded value is -0.001367, which rounds to zero.
\<close>

theorem solar_intensity_above_100_counterexample:
  "(100::real) < 100 + 1 / 10000 \<and> \<not> solar_intensity (100 + 1 / 10000) < 0"
  by (simp add: solar_intensity_def SOLAR_CONSTANT_def py_round_def round_half_even_def Let_def)

text \<open>
  C10, amended: \<open>solar_intensity\<close> clamps neither its input nor its output, it returns
  \<open>round(1367 * (1 - c / 100), 2)\<close> for every \<open>c\<close>. For \<open>c > 100\<close> the result is never
  positive, and it is strictly negative as soon as \<open>c > 100 + 1/2734\<close>, where the
  unrounded value is below -0.005; \<open>c = 200\<close> gives -1367.0, and \<open>calculate_energy\<close> of
  that intensity and 12 hours is negative.
\<close>

theorem solar_intensity_unclamped:
  "solar_intensity c = py_round (1367 * (1 - c / 100)) 2
     \<and> (100 < c \<longrightarrow> solar_intensity c \<le> 0)
     \<and> (100 + 1 / 2734 < c \<longrightarrow> solar_intensity c < 0)
     \<and> solar_intensity 200 = - 1367
     \<and> calculate_energy (solar_intensity 200) 12 < 0"
proof -
  have "100 < c \<longrightarrow> solar_intensity c \<le> 0"
    using solar_intensity_antimono [of 100 c] by (simp add: solar_intensity_100)
  moreover have "calculate_energy (solar_intensity 200) 12 < 0"
    by (simp add: solar_intensity_200 calculate_energy_negative)
  ultimately show ?thesis
    by (simp add: solar_intensity_negative solar_intensity_200)
      (simp add: solar_intensity_def SOLAR_CONSTANT_def)
qed

theorem solar_intensity_unclamped_witness:
  "(100::real) < 200 \<and> (100::real) + 1 / 2734 < 200
     \<and> solar_intensity 200 < 0 \<and> solar_intensity 200 = - 1367
     \<and> calculate_energy (solar_intensity 200) 12 < 0"
proof -
  have "(100::real) < 200" and "(100::real) + 1 / 2734 < 200"
    by simp_all
  then show ?thesis
    using solar_intensity_unclamped [of 200] by blast
qed

section \<open>The astronomical model\<close>

lemma daylight_hours_outside:
  "1 < \<bar>tan (radians latitude) * tan (radians decl)\<bar> \<Longrightarrow> daylight_hours latitude decl = 0"
  by (auto simp: daylight_hours_def Let_def)

lemma daylight_hours_inside:
  assumes "\<bar>tan (radians latitude) * tan (radians decl)\<bar> < 1"
  shows "0 < daylight_hours latitude decl \<and> daylight_hours latitude decl < 24"
proof -
  define x where "x = - tan (radians latitude) * tan (radians decl)"
  have b: "- 1 < x" "x < 1"
    using assms by (auto simp: x_def)
  then have c: "0 < arccos x" "arccos x < pi"
    using arccos_lt_bounded [of x] by simp_all
  have d: "daylight_hours latitude decl = 24 * arccos x / pi"
    using b by (simp add: daylight_hours_def Let_def x_def)
  have "0 < 24 * arccos x / pi"
    using c by simp
  moreover have "24 * arccos x / pi < 24"
    using c by (simp add: pos_divide_less_eq)
  ultimately show ?thesis
    by (simp add: d)
qed

lemma daylight_hours_product_1:
  "tan (radians latitude) * tan (radians decl) = 1 \<Longrightarrow> daylight_hours latitude decl = 24"
  by (simp add: daylight_hours_def Let_def)

lemma daylight_hours_product_minus_1:
  "tan (radians latitude) * tan (radians decl) = - 1 \<Longrightarrow> daylight_hours latitude decl = 0"
  by (simp add: daylight_hours_def Let_def)

lemma tan_75_15: "tan (radians 75) * tan (radians 15) = 1"
proof -
  have "radians 75 = pi / 2 - radians 15"
    by (simp add: radians_def)
  moreover have "tan (radians 15) \<noteq> 0"
    using tan_gt_zero [of "radians 15"] by (simp add: radians_def)
  ultimately show ?thesis
    by (simp add: tan_cot)
qed

lemma tan_75_minus_15: "tan (radians 75) * tan (radians (- 15)) = - 1"
  using tan_75_15 by (simp add: radians_def)

lemma tan_60_60: "tan (radians 60) * tan (radians 60) = 3"
  by (simp add: radians_def tan_60)

lemma daylight_hours_equator: "daylight_hours 0 decl = 12"
  by (simp add: daylight_hours_def Let_def radians_def)

text \<open>
  C2, as stated, fails at the boundary. At latitude 75 and declination 15 the product
  \<open>tan(lat) * tan(decl)\<close> is exactly 1, which is not above 1 in absolute value, and the
  result is 24, which is not strictly below 24. (In binary floating point the product is
  1.0 and the result 24.0 as well.)
\<close>

theorem daylight_hours_boundary_counterexample:
  "\<not> 1 < \<bar>tan (radians 75) * tan (radians 15)\<bar> \<and> \<not> daylight_hours 75 15 < 24"
  by (simp add: tan_75_15 daylight_hours_product_1)

text \<open>
  C2, amended: \<open>daylight_hours(lat, decl)\<close> returns exactly 0 whenever
  \<open>|tan(lat) * tan(decl)| > 1\<close>, and a value strictly between 0 and 24 whenever
  \<open>|tan(lat) * tan(decl)| < 1\<close>. On the boundary it returns 24 where the product is 1 and
  0 where the product is -1.
\<close>

theorem daylight_hours_range:
  "(1 < \<bar>tan (radians latitude) * tan (radians decl)\<bar> \<longrightarrow> daylight_hours latitude decl = 0)
     \<and> (\<bar>tan (radians latitude) * tan (radians decl)\<bar> < 1
          \<longrightarrow> 0 < daylight_hours latitude decl \<and> daylight_hours latitude decl < 24)
     \<and> (tan (radians latitude) * tan (radians decl) = 1 \<longrightarrow> daylight_hours latitude decl = 24)
     \<and> (tan (radians latitude) * tan (radians decl) = - 1 \<longrightarrow> daylight_hours latitude decl = 0)"
  using daylight_hours_outside [of latitude decl] daylight_hours_inside [of latitude decl]
    daylight_hours_product_1 [of latitude decl] daylight_hours_product_minus_1 [of latitude decl]
  by blast

theorem daylight_hours_range_witness:
  "(1 < \<bar>tan (radians 60) * tan (radians 60)\<bar> \<and> daylight_hours 60 60 = 0)
     \<and> (\<bar>tan (radians 0) * tan (radians 0)\<bar> < 1 \<and> 0 < daylight_hours 0 0
          \<and> daylight_hours 0 0 < 24)
     \<and> (tan (radians 75) * tan (radians 15) = 1 \<and> daylight_hours 75 15 = 24)
     \<and> (tan (radians 75) * tan (radians (- 15)) = - 1 \<and> daylight_hours 75 (- 15) = 0)"
proof -
  have a: "1 < \<bar>tan (radians 60) * tan (radians 60)\<bar>"
    by (simp add: tan_60_60)
  have b: "\<bar>tan (radians 0) * tan (radians 0)\<bar> < 1"
    by (simp add: radians_def)
  show ?thesis
    using a b tan_75_15 tan_75_minus_15
      daylight_hours_range [of 60 60] daylight_hours_range [of 0 0]
      daylight_hours_range [of 75 15] daylight_hours_range [of 75 "- 15"]
    by blast
qed

section \<open>The weather gateway\<close>

lemma and_then_Inl [simp]: "and_then (Inl e) f = Inl e"
  by (simp add: and_then_def)

lemma and_then_Inr [simp]: "and_then (Inr v) f = f v"
  by (simp add: and_then_def)



lemma FLOAT_OVERFLOW_pos: "0 < FLOAT_OVERFLOW"
  by (simp add: FLOAT_OVERFLOW_def)












section \<open>The region name gateway\<close>

lemma region_name_try_Raised: "region_name_try (Raised ex) = Inl ex"
  by (simp add: region_name_try_def)

lemma region_name_handler:
  "region_name_try (api lat lon) = Inl ex
     \<Longrightarrow> get_region_name_from_coords_cached api lat lon = JStr ''Unknown''"
  by (simp add: get_region_name_from_coords_cached_def)

lemma region_name_try_address:
  assumes "dict_get data ''address'' (JObj []) = Inr (JObj addr)"
  shows "region_name_try (Payload data) =
     Inr (first_nonempty addr [''city'', ''town'', ''village'', ''state''])"
  using assms by (simp add: region_name_try_def split: option.splits)




lemma region_name_try_truthy: "region_name_try outcome = Inr v \<Longrightarrow> truthy v"
  by (auto simp: region_name_try_def and_then_def split: sum.splits if_splits)

lemma region_name_truthy: "truthy (get_region_name_from_coords_cached api lat lon)"
  using region_name_try_truthy [of "api lat lon"]
  by (auto simp: get_region_name_from_coords_cached_def split: sum.splits)

text \<open>
  C6, as stated, fails: a field that is present does not always win over the fields
  after it. With the city present as the empty string and the town \<open>Agra\<close>, the name is
  \<open>Agra\<close>, not the value of the city.
\<close>

theorem region_name_present_counterexample:
  "map_of [(''city'', JStr ''''), (''town'', JStr ''Agra'')] ''city'' = Some (JStr '''')
     \<and> get_region_name_from_coords_cached
          (constant_api (Payload (JObj
             [(''address'', JObj [(''city'', JStr ''''), (''town'', JStr ''Agra'')])])))
          0 0 = JStr ''Agra''"
  by (simp add: get_region_name_from_coords_cached_def constant_api_def region_name_try_def)

text \<open>
  C6, amended: for every geocoding response with an address object, the name is the
  value of the first field, in the order city, town, village, state, that is present with
  a non-empty value (one Python takes as true); if none of the four fields is present the
  name is \<open>Unknown\<close>, and every failure (an exception of the request, of the status
  check, of the decoding, or of reading the payload) gives \<open>Unknown\<close> as well, never an
  error.
\<close>

theorem region_name_preference:
  "(api lat lon = Payload data \<and> dict_get data ''address'' (JObj []) = Inr (JObj addr)
      \<longrightarrow> get_region_name_from_coords_cached api lat lon =
            first_nonempty addr [''city'', ''town'', ''village'', ''state''])
     \<and> (api lat lon = Payload data \<and> dict_get data ''address'' (JObj []) = Inr (JObj addr)
          \<and> map_of addr ''city'' = None \<and> map_of addr ''town'' = None
          \<and> map_of addr ''village'' = None \<and> map_of addr ''state'' = None
        \<longrightarrow> get_region_name_from_coords_cached api lat lon = JStr ''Unknown'')
     \<and> (api lat lon = Raised ex
        \<longrightarrow> get_region_name_from_coords_cached api lat lon = JStr ''Unknown'')
     \<and> (region_name_try (api lat lon) = Inl ex
        \<longrightarrow> get_region_name_from_coords_cached api lat lon = JStr ''Unknown'')"
proof -
  have a: "get_region_name_from_coords_cached api lat lon =
      first_nonempty addr [''city'', ''town'', ''village'', ''state'']"
    if "api lat lon = Payload data" and "dict_get data ''address'' (JObj []) = Inr (JObj addr)"
    using that region_name_try_address [of data addr]
    by (simp add: get_region_name_from_coords_cached_def)
  have b: "first_nonempty addr [''city'', ''town'', ''village'', ''state''] = JStr ''Unknown''"
    if "map_of addr ''city'' = None" and "map_of addr ''town'' = None"
      and "map_of addr ''village'' = None" and "map_of addr ''state'' = None"
    using that by simp
  show ?thesis
    using a b region_name_handler [of api lat lon ex] region_name_try_Raised [of ex]
    by auto
qed

theorem region_name_preference_witness:
  "get_region_name_from_coords_cached
      (constant_api (Payload (JObj
         [(''address'', JObj [(''state'', JStr ''Maharashtra''), (''city'', JStr ''Pune'')])])))
      0 0 = JStr ''Pune''
     \<and> get_region_name_from_coords_cached
          (constant_api (Payload (JObj
             [(''address'', JObj [(''state'', JStr ''Goa''), (''village'', JStr ''Anjuna'')])])))
          0 0 = JStr ''Anjuna''
     \<and> get_region_name_from_coords_cached
          (constant_api (Payload (JObj [(''address'', JObj [])]))) 0 0 = JStr ''Unknown''
     \<and> get_region_name_from_coords_cached (constant_api (Raised Timeout)) 0 0 = JStr ''Unknown''
     \<and> get_region_name_from_coords_cached (constant_api (Payload (JStr ''busy''))) 0 0
          = JStr ''Unknown''"
proof -
  have a: "get_region_name_from_coords_cached
      (constant_api (Payload (JObj
         [(''address'', JObj [(''state'', JStr ''Maharashtra''), (''city'', JStr ''Pune'')])])))
      0 0 = JStr ''Pune''"
    using region_name_preference [of
        "constant_api (Payload (JObj
         [(''address'', JObj [(''state'', JStr ''Maharashtra''), (''city'', JStr ''Pune'')])]))"
        0 0 _ "[(''state'', JStr ''Maharashtra''), (''city'', JStr ''Pune'')]"]
    by (simp add: constant_api_def)
  have b: "get_region_name_from_coords_cached
          (constant_api (Payload (JObj
             [(''address'', JObj [(''state'', JStr ''Goa''), (''village'', JStr ''Anjuna'')])])))
          0 0 = JStr ''Anjuna''"
    using region_name_preference [of
        "constant_api (Payload (JObj
             [(''address'', JObj [(''state'', JStr ''Goa''), (''village'', JStr ''Anjuna'')])]))"
        0 0 _ "[(''state'', JStr ''Goa''), (''village'', JStr ''Anjuna'')]"]
    by (simp add: constant_api_def)
  have c: "get_region_name_from_coords_cached
          (constant_api (Payload (JObj [(''address'', JObj [])]))) 0 0 = JStr ''Unknown''"
    using region_name_preference [of
        "constant_api (Payload (JObj [(''address'', JObj [])]))" 0 0 _ "[]"]
    by (simp add: constant_api_def)
  have d: "get_region_name_from_coords_cached (constant_api (Raised Timeout)) 0 0
      = JStr ''Unknown''"
    using region_name_preference [of "constant_api (Raised Timeout)" 0 0 _ _ Timeout]
    by (simp add: constant_api_def)
  have e: "get_region_name_from_coords_cached (constant_api (Payload (JStr ''busy''))) 0 0
          = JStr ''Unknown''"
    using region_name_preference [of "constant_api (Payload (JStr ''busy''))" 0 0 _ _
        AttributeError]
    by (simp add: constant_api_def region_name_try_def)
  show ?thesis
    using a b c d e by blast
qed



section \<open>The region catalog\<close>

lemma read_rows_acc: "read_rows pf rows regions = regions @ read_rows pf rows []"
proof (induction rows arbitrary: regions)
  case Nil
  then show ?case by simp
next
  case (Cons row rows)
  show ?case
  proof (cases "row_try pf row")
    case (Inl ex)
    then show ?thesis using Cons.IH [of regions] by simp
  next
    case (Inr entry)
    then show ?thesis
      using Cons.IH [of "regions @ [entry]"] Cons.IH [of "[entry]"] by simp
  qed
qed


lemma read_rows_keep:
  "row_try pf row = Inr entry \<Longrightarrow>
     read_rows pf (before @ row # after) [] =
       read_rows pf before [] @ entry # read_rows pf after []"
proof (induction before)
  case Nil
  then show ?case using read_rows_acc [of pf after "[entry]"] by simp
next
  case (Cons r before)
  then show ?case
    using read_rows_acc [of pf "before @ row # after" "[x]" for x]
      read_rows_acc [of pf before "[x]" for x]
    by (simp split: sum.splits)
qed






section \<open>The ranking\<close>

lemma collect_results_map:
  "collect_results e decl regions results = results @ map (region_result e decl) regions"
  by (induction regions arbitrary: results) simp_all

lemma process_unfold:
  "process_and_save_top_regions e prev =
     (let df = map (region_result e (declination_angle (real (day_number e))))
                 (read_regions (py_float e) (csv_files e) REGION_FILE)
      in if df \<noteq> [] then (take 10 (sort_values e df), Some (take 10 (sort_values e df)))
         else ([], prev))"
  by (simp add: process_and_save_top_regions_def collect_results_map Let_def)

lemma demo_env_fields:
  "py_float (demo_env c s) = demo_float"
  "csv_files (demo_env c s) = (\<lambda>p. if p = REGION_FILE then c else None)"
  "sort_values (demo_env c s) = s"
  by (simp_all add: demo_env_def)

lemma region_result_lon_0:
  "region_result (demo_env c s) d
      \<lparr>entry_region = Cell n, entry_latitude = 0, entry_longitude = 0\<rparr>
    = \<lparr>res_region = Cell n, res_date = ''2026-03-21'', res_time = ''12:00:00'',
       res_temp = JNum 25, res_cloud = 0, res_intensity = 1367, res_daylight = 12,
       res_energy = 59.05\<rparr>"
  by (simp add: region_result_def demo_env_def get_weather_data_def
      get_weather_data_cached_def weather_try_def lon_cloud_api_def float_of_int_def
      float_add_def FLOAT_OVERFLOW_def
      daylight_hours_def radians_def solar_intensity_def SOLAR_CONSTANT_def
      calculate_energy_def py_round_def round_half_even_def Let_def)

lemma read_tied_catalog:
  "read_regions demo_float (\<lambda>p. if p = REGION_FILE then Some tied_catalog else None)
      REGION_FILE
    = [\<lparr>entry_region = Cell ''A'', entry_latitude = 0, entry_longitude = 0\<rparr>,
       \<lparr>entry_region = Cell ''B'', entry_latitude = 0, entry_longitude = 0\<rparr>]"
  by (simp add: read_regions_def tied_catalog_def catalog_header_def make_row_def row_try_def
      row_get_def demo_float_def)

text \<open>
  C4, as stated, fails for the empty catalog: the guard \<open>if not df.empty\<close> skips the
  write, so the snapshot persisted before is still there and is not replaced by the
  empty one.
\<close>

theorem snapshot_kept_counterexample:
  "read_regions (py_float (demo_env None stable_sort_desc))
      (csv_files (demo_env None stable_sort_desc)) REGION_FILE = []
     \<and> process_and_save_top_regions (demo_env None stable_sort_desc) (Some old_snapshot)
        = ([], Some old_snapshot)
     \<and> Some old_snapshot \<noteq> Some []"
  by (simp add: process_unfold demo_env_fields read_regions_def old_snapshot_def)

text \<open>
  C4, amended: over an empty catalog the function returns an empty snapshot, not an
  error, and leaves the persisted snapshot as it was. Over a catalog that is not empty
  the persisted snapshot becomes exactly the snapshot returned, whatever was persisted
  before (no merge).
\<close>

theorem snapshot_replaced_unless_empty:
  "(read_regions (py_float e) (csv_files e) REGION_FILE = []
      \<longrightarrow> process_and_save_top_regions e prev = ([], prev))
     \<and> (read_regions (py_float e) (csv_files e) REGION_FILE \<noteq> []
        \<longrightarrow> snd (process_and_save_top_regions e prev)
              = Some (fst (process_and_save_top_regions e prev))
          \<and> process_and_save_top_regions e prev = process_and_save_top_regions e prev')"
  by (simp add: process_unfold Let_def)

theorem snapshot_replaced_unless_empty_witness:
  "read_regions (py_float (demo_env (Some [catalog_header]) stable_sort_desc))
      (csv_files (demo_env (Some [catalog_header]) stable_sort_desc)) REGION_FILE = []
     \<and> process_and_save_top_regions (demo_env (Some [catalog_header]) stable_sort_desc)
          (Some old_snapshot) = ([], Some old_snapshot)
     \<and> read_regions (py_float (demo_env (Some tied_catalog) stable_sort_desc))
          (csv_files (demo_env (Some tied_catalog) stable_sort_desc)) REGION_FILE \<noteq> []
     \<and> snd (process_and_save_top_regions (demo_env (Some tied_catalog) stable_sort_desc)
          (Some old_snapshot))
        = Some (fst (process_and_save_top_regions (demo_env (Some tied_catalog) stable_sort_desc)
            (Some old_snapshot)))
     \<and> process_and_save_top_regions (demo_env (Some tied_catalog) stable_sort_desc)
          (Some old_snapshot)
        = process_and_save_top_regions (demo_env (Some tied_catalog) stable_sort_desc) None
     \<and> map res_region (fst (process_and_save_top_regions
          (demo_env (Some tied_catalog) stable_sort_desc) (Some old_snapshot)))
        = [Cell ''A'', Cell ''B'']"
proof -
  have a: "read_regions (py_float (demo_env (Some [catalog_header]) stable_sort_desc))
      (csv_files (demo_env (Some [catalog_header]) stable_sort_desc)) REGION_FILE = []"
    by (simp add: demo_env_fields read_regions_def)
  have b: "read_regions (py_float (demo_env (Some tied_catalog) stable_sort_desc))
          (csv_files (demo_env (Some tied_catalog) stable_sort_desc)) REGION_FILE \<noteq> []"
    by (simp add: demo_env_fields read_tied_catalog)
  have c: "map res_region (fst (process_and_save_top_regions
          (demo_env (Some tied_catalog) stable_sort_desc) (Some old_snapshot)))
        = [Cell ''A'', Cell ''B'']"
    by (simp add: process_unfold demo_env_fields read_tied_catalog region_result_lon_0
        stable_sort_desc_def Let_def)
  show ?thesis
    using a b c
      snapshot_replaced_unless_empty [of "demo_env (Some [catalog_header]) stable_sort_desc"
        "Some old_snapshot"]
      snapshot_replaced_unless_empty [of "demo_env (Some tied_catalog) stable_sort_desc"
        "Some old_snapshot" None]
    by blast
qed

end
